theory Spec2Isabelle
  imports Main
begin

section \<open>JavaScript values\<close>

text \<open>
  The builder of \<^verbatim>\<open>src/mevboostAccount.ts\<close> inspects values of type \<^verbatim>\<open>any\<close>
  (the caught error of \<^verbatim>\<open>init\<close>) and relies on truthiness (\<^verbatim>\<open>!addr\<close>,
  \<^verbatim>\<open>a || b\<close>, \<^verbatim>\<open>c ? x : y\<close>). Untyped values are modelled by \<open>jsval\<close>;
  numbers are the integers together with \<open>NaN\<close>.
\<close>

datatype jsval =
    JUndefined
  | JNull
  | JBool bool
  | JNum int
  | JNaN
  | JStr string
  | JArr "jsval list"
  | JObj "(string \<times> jsval) list"

text \<open>ToBoolean: \<^verbatim>\<open>undefined\<close>, \<^verbatim>\<open>null\<close>, \<^verbatim>\<open>false\<close>, \<^verbatim>\<open>0\<close>, \<^verbatim>\<open>NaN\<close> and
  the empty string are falsy, every other value is truthy.\<close>

fun truthy :: "jsval \<Rightarrow> bool" where
  "truthy JUndefined = False"
| "truthy JNull = False"
| "truthy (JBool b) = b"
| "truthy (JNum n) = (n \<noteq> 0)"
| "truthy JNaN = False"
| "truthy (JStr s) = (s \<noteq> [])"
| "truthy (JArr xs) = True"
| "truthy (JObj kvs) = True"

text \<open>Optional chaining \<^verbatim>\<open>v?.k\<close>: \<^verbatim>\<open>undefined\<close> on \<^verbatim>\<open>null\<close> and \<^verbatim>\<open>undefined\<close>,
  the property of an object when it has one, \<^verbatim>\<open>undefined\<close> otherwise.\<close>

fun opt_chain :: "jsval \<Rightarrow> string \<Rightarrow> jsval" where
  "opt_chain (JObj kvs) k = (case map_of kvs k of Some v \<Rightarrow> v | None \<Rightarrow> JUndefined)"
| "opt_chain v k = JUndefined"

text \<open>\<^verbatim>\<open>s || d\<close> on an optional string: the default replaces an absent or empty \<open>s\<close>.\<close>

fun or_default :: "string option \<Rightarrow> string \<Rightarrow> string" where
  "or_default None d = d"
| "or_default (Some s) d = (if s \<noteq> [] then s else d)"

text \<open>A JavaScript function either returns or throws; a thrown value is any value.\<close>

type_synonym 'a throws = "jsval + 'a"

definition new_Error :: "string \<Rightarrow> jsval" where
  "new_Error msg = JObj [(''message'', JStr msg)]"

section \<open>Hex strings\<close>

text \<open>\<^verbatim>\<open>ethers.utils.hexConcat\<close>, the library function \<^verbatim>\<open>init\<close> builds the init
  code with: every item is hexlified (it must match \<^verbatim>\<open>/^0x[0-9A-Fa-f]*$/\<close> and hold
  whole bytes, or the call throws, and it is lower-cased), and the digits are appended to
  \<^verbatim>\<open>"0x"\<close>.\<close>

definition isHexDigit :: "char \<Rightarrow> bool" where
  "isHexDigit c = (c \<in> set ''0123456789abcdefABCDEF'')"

definition isHexString :: "string \<Rightarrow> bool" where
  "isHexString s = (take 2 s = ''0x'' \<and> list_all isHexDigit (drop 2 s))"

definition toLowerCase_hex :: "char \<Rightarrow> char" where
  "toLowerCase_hex c =
     (case map_of [(CHR ''A'', CHR ''a''), (CHR ''B'', CHR ''b''), (CHR ''C'', CHR ''c''),
                   (CHR ''D'', CHR ''d''), (CHR ''E'', CHR ''e''), (CHR ''F'', CHR ''f'')] c of
        Some l \<Rightarrow> l | None \<Rightarrow> c)"

definition invalid_argument :: "string \<Rightarrow> string \<Rightarrow> jsval" where
  "invalid_argument reason v =
     JObj [(''reason'', JStr reason), (''code'', JStr ''INVALID_ARGUMENT''), (''value'', JStr v)]"

definition hexlify :: "string \<Rightarrow> string throws" where
  "hexlify s =
     (if isHexString s then
        (if odd (length s) then Inl (invalid_argument ''hex data is odd-length'' s)
         else Inr (map toLowerCase_hex s))
      else Inl (invalid_argument ''invalid hexlify value'' s))"

fun hexConcat_from :: "string \<Rightarrow> string list \<Rightarrow> string throws" where
  "hexConcat_from result [] = Inr result"
| "hexConcat_from result (item # items) =
     (case hexlify item of
        Inl e \<Rightarrow> Inl e
      | Inr h \<Rightarrow> hexConcat_from (result @ drop 2 h) items)"

definition hexConcat :: "string list \<Rightarrow> string throws" where
  "hexConcat items = hexConcat_from ''0x'' items"

section \<open>The operation-in-progress and the base builder\<close>

text \<open>The user operation record of the base SDK: sender, nonce, init code, call data,
  the gas fields, paymaster data and signature. The sender is whatever value
  \<^verbatim>\<open>proxy.address\<close> holds.\<close>

record user_op =
  sender :: jsval
  nonce :: nat
  initCode :: string
  callData :: string
  callGasLimit :: int
  verificationGasLimit :: int
  preVerificationGas :: int
  maxFeePerGas :: int
  maxPriorityFeePerGas :: int
  paymasterAndData :: string
  signature :: string

text \<open>The context handed to a middleware function (\<^verbatim>\<open>ctx.op\<close>, the entry point and
  the chain id).\<close>

record mw_ctx =
  op :: user_op
  ctx_entryPoint :: string
  ctx_chainId :: int

text \<open>A middleware may throw after it has written to \<^verbatim>\<open>ctx.op\<close>: it yields the thrown
  value, if any, and the context it leaves.\<close>

type_synonym middleware_fn = "mw_ctx \<Rightarrow> jsval option \<times> mw_ctx"

text \<open>The entries \<^verbatim>\<open>init\<close> registers, by name. The caller's paymaster middleware
  carries the caller's function.\<close>

datatype middleware =
    ResolveAccount
  | GetGasPrice
  | PaymasterMiddleware middleware_fn
  | EstimateUserOperationGas
  | EOASignature

text \<open>The signer is an injected capability with two methods, each of which may throw.\<close>

record signer_cap =
  signer_getAddress :: "string throws"
  signer_signMessage :: "string \<Rightarrow> string throws"

text \<open>\<^verbatim>\<open>IMEVBoostAccountBuilderOpts\<close>: the optional overrides.\<close>

record builder_opts =
  opt_entryPoint :: "string option"
  opt_factory :: "string option"
  opt_mevBoostPaymaster :: "string option"
  opt_overrideBundlerRpc :: "string option"
  opt_paymasterMiddleware :: "middleware_fn option"

text \<open>The constants the source imports: \<^verbatim>\<open>Constants.ERC4337.EntryPoint\<close> of the base
  SDK, \<^verbatim>\<open>MEVBoostAA.Factory\<close> and \<^verbatim>\<open>MEVBoostAA.MEVBoostPaymaster\<close> of
  \<^verbatim>\<open>./constants\<close>, and the base builder's default operation. Their values are not
  in the source file, so they are parameters.\<close>

record sdk_constants =
  ERC4337_EntryPoint :: string
  MEVBoostAA_Factory :: string
  MEVBoostAA_MEVBoostPaymaster :: string
  DEFAULT_USER_OP :: user_op

definition AddressZero :: string where
  "AddressZero = ''0x0000000000000000000000000000000000000000''"

text \<open>The builder instance: the private fields of \<^verbatim>\<open>MEVBoostAccount\<close> and the three
  fields it inherits from \<^verbatim>\<open>UserOperationBuilder\<close>. A contract reference is
  represented by the address it is connected to.\<close>

record account_builder =
  signer :: signer_cap
  provider :: "string \<times> string option"
  entryPoint :: string
  factory :: string
  mevBoostPaymaster :: string
  initCode_field :: string
  proxy :: jsval
  defaultOp :: user_op
  currOp :: user_op
  middlewareStack :: "middleware list"

text \<open>The remote endpoints and the call-data encoder the builder talks to, as the
  answers they give. The simulated \<^verbatim>\<open>getSenderAddress\<close> call and \<^verbatim>\<open>getNonce\<close> go
  to the entry point; the three preset middleware functions are those of the base SDK and
  of \<^verbatim>\<open>./middleware\<close>.\<close>

record endpoints =
  encodeFunctionData :: "string \<Rightarrow> jsval list \<Rightarrow> string throws"
  getSenderAddress :: "string \<Rightarrow> jsval throws"
  getNonce :: "jsval \<Rightarrow> nat \<Rightarrow> nat throws"
  getGasPrice_fn :: middleware_fn
  estimateUserOperationGas_fn :: middleware_fn
  EOASignature_fn :: middleware_fn

subsection \<open>Methods of the base builder\<close>

text \<open>Modelled from the spec: \<^verbatim>\<open>UserOperationBuilder\<close> of the base SDK is not under
  \<^verbatim>\<open>src/\<close>. Section 4.2: seeding defaults sets the sender and the placeholder
  signature of the operation; middleware runs in registration order; a call-data setter
  "sets call data only".\<close>

definition useDefaults :: "jsval \<Rightarrow> string \<Rightarrow> account_builder \<Rightarrow> account_builder" where
  "useDefaults s sig b =
     b\<lparr>defaultOp := (defaultOp b)\<lparr>sender := s, signature := sig\<rparr>,
       currOp := (currOp b)\<lparr>sender := s, signature := sig\<rparr>\<rparr>"

definition useMiddleware :: "middleware \<Rightarrow> account_builder \<Rightarrow> account_builder" where
  "useMiddleware fn b = b\<lparr>middlewareStack := middlewareStack b @ [fn]\<rparr>"

definition setCallData :: "string \<Rightarrow> account_builder \<Rightarrow> account_builder" where
  "setCallData val b = b\<lparr>currOp := (currOp b)\<lparr>callData := val\<rparr>\<rparr>"

section \<open>Construction and initialization\<close>

text \<open>The private constructor (lines 39 to 67): the init code starts as \<^verbatim>\<open>"0x"\<close> and
  the proxy is connected to the zero address.\<close>

definition new_MEVBoostAccount ::
  "sdk_constants \<Rightarrow> signer_cap \<Rightarrow> string \<Rightarrow> builder_opts option \<Rightarrow> account_builder" where
  "new_MEVBoostAccount K sg rpcUrl opts =
     \<lparr>signer = sg,
      provider = (rpcUrl, Option.bind opts opt_overrideBundlerRpc),
      entryPoint = or_default (Option.bind opts opt_entryPoint) (ERC4337_EntryPoint K),
      factory = or_default (Option.bind opts opt_factory) (MEVBoostAA_Factory K),
      mevBoostPaymaster =
        or_default (Option.bind opts opt_mevBoostPaymaster) (MEVBoostAA_MEVBoostPaymaster K),
      initCode_field = ''0x'',
      proxy = JStr AddressZero,
      defaultOp = DEFAULT_USER_OP K,
      currOp = DEFAULT_USER_OP K,
      middlewareStack = []\<rparr>"

text \<open>The body of the \<^verbatim>\<open>try\<close> block (lines 82 to 93). It never completes normally:
  the result is the value thrown and the instance as it is at the throw. The arguments
  are evaluated left to right, so the signer's address is read first, then the creation
  call is encoded, then \<^verbatim>\<open>hexConcat\<close> runs and only then is \<^verbatim>\<open>initCode\<close>
  assigned.\<close>

definition unexpected_result :: jsval where
  "unexpected_result = new_Error ''getSenderAddress: unexpected result''"

definition init_try :: "endpoints \<Rightarrow> account_builder \<Rightarrow> jsval \<times> account_builder" where
  "init_try E inst =
     (case signer_getAddress (signer inst) of
        Inl e \<Rightarrow> (e, inst)
      | Inr a \<Rightarrow>
          (case encodeFunctionData E ''createAccount''
                  [JStr a, JStr (mevBoostPaymaster inst), JNum 0] of
             Inl e \<Rightarrow> (e, inst)
           | Inr data \<Rightarrow>
               (case hexConcat [factory inst, data] of
                  Inl e \<Rightarrow> (e, inst)
                | Inr ic \<Rightarrow>
                    (case getSenderAddress E ic of
                       Inl e \<Rightarrow> (e, inst\<lparr>initCode_field := ic\<rparr>)
                     | Inr r \<Rightarrow> (unexpected_result, inst\<lparr>initCode_field := ic\<rparr>)))))"

text \<open>The \<^verbatim>\<open>catch\<close> block (lines 95 to 101).\<close>

definition init_catch :: "jsval \<Rightarrow> account_builder \<Rightarrow> account_builder throws" where
  "init_catch error inst =
     (let addr = opt_chain (opt_chain error ''errorArgs'') ''sender''
      in if \<not> truthy addr then Inl error else Inr (inst\<lparr>proxy := addr\<rparr>))"

text \<open>The message whose signature is the placeholder: the bytes of
  \<^verbatim>\<open>keccak256("0xdead")\<close>, kept symbolic.\<close>

definition placeholder_message :: string where
  "placeholder_message = ''keccak256(0xdead)''"

text \<open>Lines 104 to 120: defaults, then the middleware registrations.\<close>

definition init_register ::
  "builder_opts option \<Rightarrow> account_builder \<Rightarrow> account_builder throws" where
  "init_register opts inst =
     (case signer_signMessage (signer inst) placeholder_message of
        Inl e \<Rightarrow> Inl e
      | Inr sig \<Rightarrow>
          (let base = useMiddleware GetGasPrice
                        (useMiddleware ResolveAccount (useDefaults (proxy inst) sig inst));
               withPM = (case Option.bind opts opt_paymasterMiddleware of
                           Some pm \<Rightarrow> useMiddleware (PaymasterMiddleware pm) base
                         | None \<Rightarrow> useMiddleware EstimateUserOperationGas base)
           in Inr (useMiddleware EOASignature withPM)))"

definition init ::
  "sdk_constants \<Rightarrow> endpoints \<Rightarrow> signer_cap \<Rightarrow> string \<Rightarrow> builder_opts option
     \<Rightarrow> account_builder throws" where
  "init K E sg rpcUrl opts =
     (let instance = new_MEVBoostAccount K sg rpcUrl opts;
          (error, instance1) = init_try E instance
      in case init_catch error instance1 of
           Inl e \<Rightarrow> Inl e
         | Inr instance2 \<Rightarrow> init_register opts instance2)"

section \<open>The account resolution middleware\<close>

text \<open>Lines 69 to 72. \<^verbatim>\<open>getNonce\<close> is awaited before anything is written; the init
  code is then chosen by the nonce just stored.\<close>

definition resolveAccount :: "endpoints \<Rightarrow> account_builder \<Rightarrow> middleware_fn" where
  "resolveAccount E this ctx =
     (case getNonce E (sender (op ctx)) 0 of
        Inl e \<Rightarrow> (Some e, ctx)
      | Inr n \<Rightarrow>
          (let ctx1 = ctx\<lparr>op := (op ctx)\<lparr>nonce := n\<rparr>\<rparr>
           in (None, ctx1\<lparr>op := (op ctx1)\<lparr>initCode :=
                  (if nonce (op ctx1) = 0 then initCode_field this else ''0x'')\<rparr>\<rparr>)))"

text \<open>Modelled from the spec: finalization (\<^verbatim>\<open>buildOp\<close> of the base SDK, not under
  \<^verbatim>\<open>src/\<close>) "runs the middleware chain in registration order over the
  operation-in-progress and returns the fully signed result, or propagates the first
  middleware failure".\<close>

fun run_middleware :: "endpoints \<Rightarrow> account_builder \<Rightarrow> middleware \<Rightarrow> middleware_fn" where
  "run_middleware E this ResolveAccount = resolveAccount E this"
| "run_middleware E this GetGasPrice = getGasPrice_fn E"
| "run_middleware E this (PaymasterMiddleware f) = f"
| "run_middleware E this EstimateUserOperationGas = estimateUserOperationGas_fn E"
| "run_middleware E this EOASignature = EOASignature_fn E"

fun run_stack ::
  "endpoints \<Rightarrow> account_builder \<Rightarrow> middleware list \<Rightarrow> mw_ctx \<Rightarrow> jsval option \<times> mw_ctx" where
  "run_stack E this [] ctx = (None, ctx)"
| "run_stack E this (m # ms) ctx =
     (case run_middleware E this m ctx of
        (Some e, ctx') \<Rightarrow> (Some e, ctx')
      | (None, ctx') \<Rightarrow> run_stack E this ms ctx')"

definition buildOp ::
  "endpoints \<Rightarrow> string \<Rightarrow> int \<Rightarrow> account_builder \<Rightarrow> jsval option \<times> account_builder" where
  "buildOp E ep chainId this =
     (case run_stack E this (middlewareStack this)
             \<lparr>op = currOp this, ctx_entryPoint = ep, ctx_chainId = chainId\<rparr> of
        (Some e, ctx) \<Rightarrow> (Some e, this)
      | (None, ctx) \<Rightarrow> (None, this\<lparr>currOp := op ctx\<rparr>))"

section \<open>The call-data setters\<close>

text \<open>Lines 123 to 169. The argument of \<^verbatim>\<open>setCallData\<close> is evaluated first: when the
  encoder throws, \<^verbatim>\<open>setCallData\<close> is never called. Each setter yields the thrown
  value, if any, and the builder it leaves. Addresses and byte strings are strings,
  amounts are integers, the MEV configuration is passed through as it is.\<close>

definition execute ::
  "endpoints \<Rightarrow> string \<Rightarrow> int \<Rightarrow> string \<Rightarrow> account_builder \<Rightarrow> jsval option \<times> account_builder" where
  "execute E to val data this =
     (case encodeFunctionData E ''execute'' [JStr to, JNum val, JStr data] of
        Inl e \<Rightarrow> (Some e, this)
      | Inr cd \<Rightarrow> (None, setCallData cd this))"

definition executeBatch ::
  "endpoints \<Rightarrow> string list \<Rightarrow> int list \<Rightarrow> string list \<Rightarrow> account_builder
     \<Rightarrow> jsval option \<times> account_builder" where
  "executeBatch E to val data this =
     (case encodeFunctionData E ''executeBatch''
             [JArr (map JStr to), JArr (map JNum val), JArr (map JStr data)] of
        Inl e \<Rightarrow> (Some e, this)
      | Inr cd \<Rightarrow> (None, setCallData cd this))"

definition boostExecute ::
  "endpoints \<Rightarrow> jsval \<Rightarrow> string \<Rightarrow> int \<Rightarrow> string \<Rightarrow> account_builder
     \<Rightarrow> jsval option \<times> account_builder" where
  "boostExecute E config to val data this =
     (case encodeFunctionData E ''boostExecute'' [config, JStr to, JNum val, JStr data] of
        Inl e \<Rightarrow> (Some e, this)
      | Inr cd \<Rightarrow> (None, setCallData cd this))"

definition boostExecuteBatch ::
  "endpoints \<Rightarrow> jsval \<Rightarrow> string list \<Rightarrow> int list \<Rightarrow> string list \<Rightarrow> account_builder
     \<Rightarrow> jsval option \<times> account_builder" where
  "boostExecuteBatch E config to val data this =
     (case encodeFunctionData E ''boostExecuteBatch''
             [config, JArr (map JStr to), JArr (map JNum val), JArr (map JStr data)] of
        Inl e \<Rightarrow> (Some e, this)
      | Inr cd \<Rightarrow> (None, setCallData cd this))"

section \<open>The settlement waiter\<close>

text \<open>\<^verbatim>\<open>boostWait\<close> (lines 171 to 190) reads the clock, fetches the latest block, and
  polls the paymaster's event log. The outside world is a state \<open>'w\<close> that every
  awaited call may change (time passes, blocks are mined); the clock is read off the
  state. The four primitives are parameters.\<close>

record block =
  number :: int

record 'w io =
  Date_now :: "'w \<Rightarrow> int"
  getBlock :: "'w \<Rightarrow> block throws \<times> 'w"
  queryFilter :: "string \<Rightarrow> string \<Rightarrow> int \<Rightarrow> 'w \<Rightarrow> jsval list throws \<times> 'w"
  setTimeout :: "int \<Rightarrow> 'w \<Rightarrow> 'w"

text \<open>The remote calls issued, in order: the block fetch, a log query (paymaster address,
  operation hash, first block), a sleep (milliseconds).\<close>

datatype call = GetBlock | QueryFilter string string int | Sleep int

datatype 'a completion = Returned 'a | Thrown jsval

text \<open>The deadline argument is a JavaScript number or absent. Timestamps are whole
  milliseconds.\<close>

datatype jsnumber = Num int | NaN | Infinity | NegInfinity

fun truthy_number :: "jsnumber \<Rightarrow> bool" where
  "truthy_number (Num n) = (n \<noteq> 0)"
| "truthy_number NaN = False"
| "truthy_number Infinity = True"
| "truthy_number NegInfinity = True"

text \<open>\<^verbatim>\<open>now < end\<close> for a clock reading \<open>now\<close>.\<close>

fun before :: "int \<Rightarrow> jsnumber \<Rightarrow> bool" where
  "before now (Num e) = (now < e)"
| "before now NaN = False"
| "before now Infinity = True"
| "before now NegInfinity = False"

text \<open>Line 176: \<^verbatim>\<open>deadlineMs || Date.now() + 30000\<close>.\<close>

definition deadline_end :: "jsnumber option \<Rightarrow> int \<Rightarrow> jsnumber" where
  "deadline_end deadlineMs now =
     (case deadlineMs of
        None \<Rightarrow> Num (now + 30000)
      | Some d \<Rightarrow> if truthy_number d then d else Num (now + 30000))"

text \<open>Line 181: \<^verbatim>\<open>Math.max(0, block.number - 100)\<close>.\<close>

definition fromBlock :: "block \<Rightarrow> int" where
  "fromBlock blk = max 0 (number blk - 100)"

text \<open>The \<^verbatim>\<open>while\<close> loop (lines 178 to 187). The loop need not end (a clock that
  stands still, an infinite deadline), so it runs on fuel: \<open>None\<close> means the fuel ran out
  before the loop returned.\<close>

fun boostWait_loop ::
  "nat \<Rightarrow> 'w io \<Rightarrow> string \<Rightarrow> string \<Rightarrow> jsnumber \<Rightarrow> block \<Rightarrow> int \<Rightarrow> 'w
     \<Rightarrow> (jsval completion \<times> call list \<times> 'w) option" where
  "boostWait_loop 0 io pm userOpHash end blk waitIntervalMs w = None"
| "boostWait_loop (Suc fuel) io pm userOpHash end blk waitIntervalMs w =
     (if before (Date_now io w) end then
        (case queryFilter io pm userOpHash (fromBlock blk) w of
           (Inl e, w1) \<Rightarrow> Some (Thrown e, [QueryFilter pm userOpHash (fromBlock blk)], w1)
         | (Inr events, w1) \<Rightarrow>
             if length events > 0 then
               Some (Returned (events ! 0), [QueryFilter pm userOpHash (fromBlock blk)], w1)
             else
               (case boostWait_loop fuel io pm userOpHash end blk waitIntervalMs
                       (setTimeout io waitIntervalMs w1) of
                  None \<Rightarrow> None
                | Some (r, calls, w2) \<Rightarrow>
                    Some (r, QueryFilter pm userOpHash (fromBlock blk)
                               # Sleep waitIntervalMs # calls, w2)))
      else Some (Returned JNull, [], w))"

text \<open>The default of the third parameter applies when it is absent.\<close>

definition boostWait ::
  "nat \<Rightarrow> 'w io \<Rightarrow> account_builder \<Rightarrow> string \<Rightarrow> jsnumber option \<Rightarrow> int option \<Rightarrow> 'w
     \<Rightarrow> (jsval completion \<times> call list \<times> 'w) option" where
  "boostWait fuel io this userOpHash deadlineMs waitIntervalMs w =
     (let interval = (case waitIntervalMs of None \<Rightarrow> 5000 | Some i \<Rightarrow> i);
          end = deadline_end deadlineMs (Date_now io w)
      in case getBlock io w of
           (Inl e, w1) \<Rightarrow> Some (Thrown e, [GetBlock], w1)
         | (Inr blk, w1) \<Rightarrow>
             (case boostWait_loop fuel io (mevBoostPaymaster this) userOpHash end blk
                     interval w1 of
                None \<Rightarrow> None
              | Some (r, calls, w2) \<Rightarrow> Some (r, GetBlock # calls, w2)))"

section \<open>Public operations in sequence\<close>

text \<open>The operations a caller can invoke on an initialized builder: the four setters,
  the settlement waiter, and finalization, which runs the registered middleware. A call
  that throws leaves the builder as it is at the throw.\<close>

datatype public_call =
    CallExecute string int string
  | CallExecuteBatch "string list" "int list" "string list"
  | CallBoostExecute jsval string int string
  | CallBoostExecuteBatch jsval "string list" "int list" "string list"
  | CallBoostWait nat string "jsnumber option" "int option"
  | CallBuildOp string int

fun public_step ::
  "endpoints \<Rightarrow> 'w io \<Rightarrow> account_builder \<times> 'w \<Rightarrow> public_call \<Rightarrow> account_builder \<times> 'w" where
  "public_step E io (this, w) (CallExecute to val data) = (snd (execute E to val data this), w)"
| "public_step E io (this, w) (CallExecuteBatch to val data) =
     (snd (executeBatch E to val data this), w)"
| "public_step E io (this, w) (CallBoostExecute config to val data) =
     (snd (boostExecute E config to val data this), w)"
| "public_step E io (this, w) (CallBoostExecuteBatch config to val data) =
     (snd (boostExecuteBatch E config to val data this), w)"
| "public_step E io (this, w) (CallBoostWait fuel userOpHash deadlineMs waitIntervalMs) =
     (this, case boostWait fuel io this userOpHash deadlineMs waitIntervalMs w of
              None \<Rightarrow> w
            | Some (r, calls, w') \<Rightarrow> w')"
| "public_step E io (this, w) (CallBuildOp ep chainId) = (snd (buildOp E ep chainId this), w)"

section \<open>Vocabulary of the properties\<close>

text \<open>The sender-address field recovered from failure data: \<^verbatim>\<open>error?.errorArgs?.sender\<close>.\<close>

definition recovered_sender :: "jsval \<Rightarrow> jsval" where
  "recovered_sender error = opt_chain (opt_chain error ''errorArgs'') ''sender''"






section \<open>ABI encoding of the batch call\<close>














section \<open>Example configurations\<close>

text \<open>A signer, endpoints and a clock on which the definitions above can be run. The
  endpoints answer the simulated \<^verbatim>\<open>getSenderAddress\<close> call with \<open>answer\<close> and every
  nonce query with \<open>n\<close>; the world of \<open>example_io\<close> is the clock reading, a block fetch
  takes 20 ms, a log query 30 ms, and the settlement event is in the log from time
  \<open>settled\<close> on.\<close>

definition example_op :: user_op where
  "example_op =
     \<lparr>sender = JStr AddressZero, nonce = 0, initCode = ''0x'', callData = ''0x'',
      callGasLimit = 35000, verificationGasLimit = 70000, preVerificationGas = 21000,
      maxFeePerGas = 0, maxPriorityFeePerGas = 0, paymasterAndData = ''0x'',
      signature = ''0x''\<rparr>"

definition example_constants :: sdk_constants where
  "example_constants =
     \<lparr>ERC4337_EntryPoint = ''0x5FF137D4b0FDCD49DcA30c7CF57E578a026d2789'',
      MEVBoostAA_Factory = ''0xFAc7000000000000000000000000000000000001'',
      MEVBoostAA_MEVBoostPaymaster = ''0x9A00000000000000000000000000000000000002'',
      DEFAULT_USER_OP = example_op\<rparr>"

definition example_signer :: signer_cap where
  "example_signer =
     \<lparr>signer_getAddress = Inr ''0x1111111111111111111111111111111111111111'',
      signer_signMessage = (\<lambda>m. Inr ''0x5151'')\<rparr>"

definition example_account :: string where
  "example_account = ''0x2222222222222222222222222222222222222222''"

definition SenderAddressResult :: "jsval \<Rightarrow> jsval" where
  "SenderAddressResult a =
     JObj [(''errorName'', JStr ''SenderAddressResult''), (''errorArgs'', JObj [(''sender'', a)])]"

definition example_endpoints :: "jsval throws \<Rightarrow> nat \<Rightarrow> endpoints" where
  "example_endpoints answer n =
     \<lparr>encodeFunctionData = (\<lambda>f args. Inr ''0x5fbfb9cf''),
      getSenderAddress = (\<lambda>ic. answer),
      getNonce = (\<lambda>s k. Inr n),
      getGasPrice_fn = (\<lambda>ctx. (None, ctx)),
      estimateUserOperationGas_fn = (\<lambda>ctx. (None, ctx)),
      EOASignature_fn = (\<lambda>ctx. (None, ctx))\<rparr>"

definition example_paymasterMiddleware :: middleware_fn where
  "example_paymasterMiddleware ctx = (None, ctx\<lparr>op := (op ctx)\<lparr>paymasterAndData := ''0x9a''\<rparr>\<rparr>)"

definition example_opts :: builder_opts where
  "example_opts =
     \<lparr>opt_entryPoint = None, opt_factory = None, opt_mevBoostPaymaster = None,
      opt_overrideBundlerRpc = None,
      opt_paymasterMiddleware = Some example_paymasterMiddleware\<rparr>"

definition example_ctx :: mw_ctx where
  "example_ctx =
     \<lparr>op = example_op, ctx_entryPoint = ''0x5FF137D4b0FDCD49DcA30c7CF57E578a026d2789'',
      ctx_chainId = 1\<rparr>"

definition example_builder :: account_builder where
  "example_builder =
     new_MEVBoostAccount example_constants example_signer ''http://localhost:8545'' None"

definition example_event :: jsval where
  "example_event = JObj [(''event'', JStr ''SettleUserOp'')]"

definition example_io :: "int \<Rightarrow> int \<Rightarrow> int io" where
  "example_io head settled =
     \<lparr>Date_now = (\<lambda>w. w),
      getBlock = (\<lambda>w. (Inr \<lparr>number = head\<rparr>, w + 20)),
      queryFilter =
        (\<lambda>pm h f w. (Inr (if settled \<le> w + 30 then [example_event] else []), w + 30)),
      setTimeout = (\<lambda>ms w. w + ms)\<rparr>"



definition example_userOpHash :: string where
  "example_userOpHash = ''0x3a7c1e5b9d2f4a6c8e0b1d3f5a7c9e1b3d5f7a9c1e3b5d7f9a1c3e5b7d9f1a3c''"

section \<open>Initialization: address resolution\<close>

lemma recovered_unexpected: "recovered_sender unexpected_result = JUndefined"
  by (simp add: recovered_sender_def unexpected_result_def new_Error_def)

text \<open>When the signer's address and the creation call data are available, the
  \<^verbatim>\<open>try\<close> block stores the init code, issues the simulated call and throws.\<close>

lemma init_try_issued:
  assumes "signer_getAddress sg = Inr a"
    and "encodeFunctionData E ''createAccount''
           [JStr a, JStr (mevBoostPaymaster (new_MEVBoostAccount K sg rpcUrl opts)), JNum 0]
         = Inr data"
    and "hexConcat [factory (new_MEVBoostAccount K sg rpcUrl opts), data] = Inr ic"
  shows "init_try E (new_MEVBoostAccount K sg rpcUrl opts) =
           ((case getSenderAddress E ic of Inl e \<Rightarrow> e | Inr r \<Rightarrow> unexpected_result),
            (new_MEVBoostAccount K sg rpcUrl opts)\<lparr>initCode_field := ic\<rparr>)"
proof -
  have sg: "signer (new_MEVBoostAccount K sg rpcUrl opts) = sg"
    by (simp add: new_MEVBoostAccount_def)
  show ?thesis
    using assms by (simp add: init_try_def sg split: sum.splits)
qed

lemma init_catch_falsy: "\<not> truthy (recovered_sender e) \<Longrightarrow> init_catch e inst = Inl e"
  by (simp add: init_catch_def recovered_sender_def)

lemma init_catch_truthy:
  "truthy (recovered_sender e) \<Longrightarrow>
     init_catch e inst = Inr (inst\<lparr>proxy := recovered_sender e\<rparr>)"
  by (simp add: init_catch_def recovered_sender_def)

lemma init_catch_Inr: "init_catch e inst = Inr inst' \<Longrightarrow> truthy (proxy inst')"
  by (auto simp: init_catch_def Let_def split: if_splits)

lemma init_register_fields:
  "init_register opts inst = Inr inst' \<Longrightarrow>
     proxy inst' = proxy inst \<and> initCode_field inst' = initCode_field inst
     \<and> sender (currOp inst') = proxy inst"
  by (auto simp: init_register_def Let_def useMiddleware_def useDefaults_def
      split: sum.splits option.splits)

lemma init_register_total:
  "signer_signMessage (signer inst) placeholder_message = Inr sig \<Longrightarrow>
     \<exists>inst'. init_register opts inst = Inr inst'"
  by (simp add: init_register_def Let_def)

lemma init_register_throws:
  "signer_signMessage (signer inst) placeholder_message = Inl e \<Longrightarrow>
     init_register opts inst = Inl e"
  by (simp add: init_register_def)

lemma init_Inr_truthy: "init K E sg rpcUrl opts = Inr inst \<Longrightarrow> truthy (proxy inst)"
  by (auto simp: init_def Let_def split: prod.splits sum.splits
      dest!: init_catch_Inr init_register_fields)

lemma init_initCode_field:
  assumes addr: "signer_getAddress sg = Inr a"
    and enc: "encodeFunctionData E ''createAccount''
           [JStr a, JStr (mevBoostPaymaster (new_MEVBoostAccount K sg rpcUrl opts)), JNum 0]
         = Inr data"
    and cat: "hexConcat [factory (new_MEVBoostAccount K sg rpcUrl opts), data] = Inr ic"
    and i: "init K E sg rpcUrl opts = Inr inst"
  shows "initCode_field inst = ic"
  using i init_try_issued [OF addr enc cat]
  by (auto simp: init_def init_catch_def Let_def split: sum.splits if_splits
      dest!: init_register_fields)

text \<open>The example endpoints reach the simulated call, with this init code.\<close>

lemma example_issued:
  "signer_getAddress example_signer = Inr ''0x1111111111111111111111111111111111111111''"
  "encodeFunctionData (example_endpoints ans n) ''createAccount''
     [JStr ''0x1111111111111111111111111111111111111111'',
      JStr (mevBoostPaymaster (new_MEVBoostAccount example_constants example_signer url opts)),
      JNum 0] = Inr ''0x5fbfb9cf''"
  by (simp_all add: example_signer_def example_endpoints_def)

lemma example_initCode:
  "hexConcat [factory (new_MEVBoostAccount example_constants example_signer url None),
              ''0x5fbfb9cf'']
     = Inr ''0xfac70000000000000000000000000000000000015fbfb9cf''"
  by (simp add: example_constants_def new_MEVBoostAccount_def hexConcat_def hexlify_def
      isHexString_def isHexDigit_def toLowerCase_hex_def)

lemmas init_eval = init_def init_try_def init_catch_def init_register_def
  new_MEVBoostAccount_def useDefaults_def useMiddleware_def hexConcat_def hexlify_def
  isHexString_def isHexDigit_def toLowerCase_hex_def unexpected_result_def new_Error_def
  Let_def AddressZero_def

lemmas example_defs = example_op_def example_constants_def example_signer_def
  SenderAddressResult_def example_endpoints_def example_account_def

text \<open>
  Claim C1, as the code has it. Once \<^verbatim>\<open>init\<close> has issued the simulated
  \<^verbatim>\<open>getSenderAddress\<close> call on the init code \<open>ic\<close>: if the call returns,
  initialization fails with the error "getSenderAddress: unexpected result"; if it throws
  \<open>e\<close> and \<open>e\<close> carries no truthy \<^verbatim>\<open>errorArgs.sender\<close>, initialization fails with
  \<open>e\<close> itself; otherwise the recovered value is bound as the proxy address (and becomes
  the sender of the operation), and initialization completes unless signing the
  placeholder message throws. Initialization never completes with an absent or empty
  address bound: the bound value is truthy, so it is not \<^verbatim>\<open>undefined\<close>, \<^verbatim>\<open>null\<close>
  or the empty string. Nothing is said of the zero address, which is a non-empty string.
\<close>

theorem init_address_resolution:
  assumes addr: "signer_getAddress sg = Inr a"
    and enc: "encodeFunctionData E ''createAccount''
           [JStr a, JStr (mevBoostPaymaster (new_MEVBoostAccount K sg rpcUrl opts)), JNum 0]
         = Inr data"
    and cat: "hexConcat [factory (new_MEVBoostAccount K sg rpcUrl opts), data] = Inr ic"
  shows "(\<forall>r. getSenderAddress E ic = Inr r \<longrightarrow> init K E sg rpcUrl opts = Inl unexpected_result)
    \<and> (\<forall>e. getSenderAddress E ic = Inl e \<and> \<not> truthy (recovered_sender e) \<longrightarrow>
           init K E sg rpcUrl opts = Inl e)
    \<and> (\<forall>e. getSenderAddress E ic = Inl e \<and> truthy (recovered_sender e) \<longrightarrow>
           (case signer_signMessage sg placeholder_message of
              Inl e' \<Rightarrow> init K E sg rpcUrl opts = Inl e'
            | Inr sig \<Rightarrow>
                (\<exists>inst. init K E sg rpcUrl opts = Inr inst
                   \<and> proxy inst = recovered_sender e
                   \<and> sender (currOp inst) = recovered_sender e
                   \<and> initCode_field inst = ic)))
    \<and> (\<forall>inst. init K E sg rpcUrl opts = Inr inst \<longrightarrow>
           truthy (proxy inst) \<and> proxy inst \<noteq> JUndefined \<and> proxy inst \<noteq> JNull
           \<and> proxy inst \<noteq> JStr '''')"
proof (intro conjI allI impI)
  note tr = init_try_issued [OF addr enc cat]
  let ?i = "(new_MEVBoostAccount K sg rpcUrl opts)\<lparr>initCode_field := ic\<rparr>"
  {
    fix r assume "getSenderAddress E ic = Inr r"
    then show "init K E sg rpcUrl opts = Inl unexpected_result"
      using tr by (simp add: init_def init_catch_falsy recovered_unexpected)
  next
    fix e assume "getSenderAddress E ic = Inl e \<and> \<not> truthy (recovered_sender e)"
    then show "init K E sg rpcUrl opts = Inl e"
      using tr by (simp add: init_def init_catch_falsy)
  next
    fix e assume h: "getSenderAddress E ic = Inl e \<and> truthy (recovered_sender e)"
    let ?j = "?i\<lparr>proxy := recovered_sender e\<rparr>"
    have eq: "init K E sg rpcUrl opts = init_register opts ?j"
      using tr h by (simp add: init_def init_catch_truthy)
    have sgj: "signer ?j = sg" by (simp add: new_MEVBoostAccount_def)
    show "case signer_signMessage sg placeholder_message of
              Inl e' \<Rightarrow> init K E sg rpcUrl opts = Inl e'
            | Inr sig \<Rightarrow>
                (\<exists>inst. init K E sg rpcUrl opts = Inr inst
                   \<and> proxy inst = recovered_sender e
                   \<and> sender (currOp inst) = recovered_sender e
                   \<and> initCode_field inst = ic)"
    proof (cases "signer_signMessage sg placeholder_message")
      case (Inl e')
      then show ?thesis using eq init_register_throws [of ?j e' opts] sgj by simp
    next
      case (Inr sig)
      then obtain inst where i: "init_register opts ?j = Inr inst"
        using init_register_total [of ?j sig opts] sgj by auto
      from init_register_fields [OF i] show ?thesis using Inr eq i by simp
    qed
  next
    fix inst assume "init K E sg rpcUrl opts = Inr inst"
    then have t: "truthy (proxy inst)" by (rule init_Inr_truthy)
    then show "truthy (proxy inst)" .
    from t show "proxy inst \<noteq> JUndefined" by auto
    from t show "proxy inst \<noteq> JNull" by auto
    from t show "proxy inst \<noteq> JStr ''''" by auto
  }
qed

text \<open>The three outcomes on the example endpoints: the call returns, the call fails
  with a plain error, the call fails with \<^verbatim>\<open>SenderAddressResult\<close>.\<close>

theorem init_address_resolution_witness:
  "init example_constants (example_endpoints (Inr JUndefined) 0) example_signer
       ''http://localhost:8545'' None = Inl unexpected_result
   \<and> init example_constants (example_endpoints (Inl (new_Error ''timeout'')) 0) example_signer
       ''http://localhost:8545'' None = Inl (new_Error ''timeout'')
   \<and> proxy (projr (init example_constants
         (example_endpoints (Inl (SenderAddressResult (JStr example_account))) 0) example_signer
         ''http://localhost:8545'' None)) = JStr example_account"
proof -
  let ?E = "\<lambda>ans. example_endpoints ans 0"
  note t = init_address_resolution [OF example_issued(1) example_issued(2) example_initCode]
  have a: "getSenderAddress (?E ans) ic = ans" for ans ic
    by (simp add: example_endpoints_def)
  from t [of "Inr JUndefined" 0 "''http://localhost:8545''"] a
  have c1: "init example_constants (?E (Inr JUndefined)) example_signer
       ''http://localhost:8545'' None = Inl unexpected_result"
    by blast
  have f: "\<not> truthy (recovered_sender (new_Error ''timeout''))"
    by (simp add: recovered_sender_def new_Error_def)
  from t [of "Inl (new_Error ''timeout'')" 0 "''http://localhost:8545''"] a f
  have c2: "init example_constants (?E (Inl (new_Error ''timeout''))) example_signer
       ''http://localhost:8545'' None = Inl (new_Error ''timeout'')"
    by blast
  have g: "truthy (recovered_sender (SenderAddressResult (JStr example_account)))"
    "recovered_sender (SenderAddressResult (JStr example_account)) = JStr example_account"
    by (simp_all add: recovered_sender_def SenderAddressResult_def example_account_def)
  have s: "signer_signMessage example_signer placeholder_message = Inr ''0x5151''"
    by (simp add: example_signer_def)
  from t [of "Inl (SenderAddressResult (JStr example_account))" 0 "''http://localhost:8545''"]
    a g
  have "case signer_signMessage example_signer placeholder_message of
          Inl e' \<Rightarrow>
            init example_constants (?E (Inl (SenderAddressResult (JStr example_account))))
              example_signer ''http://localhost:8545'' None = Inl e'
        | Inr sig \<Rightarrow>
            (\<exists>inst. init example_constants
                      (?E (Inl (SenderAddressResult (JStr example_account))))
                      example_signer ''http://localhost:8545'' None = Inr inst
               \<and> proxy inst = recovered_sender (SenderAddressResult (JStr example_account))
               \<and> sender (currOp inst)
                   = recovered_sender (SenderAddressResult (JStr example_account))
               \<and> initCode_field inst = ''0xfac70000000000000000000000000000000000015fbfb9cf'')"
    by blast
  with s g(2) have c3: "proxy (projr (init example_constants
         (?E (Inl (SenderAddressResult (JStr example_account)))) example_signer
         ''http://localhost:8545'' None)) = JStr example_account"
    by auto
  from c1 c2 c3 show ?thesis by blast
qed

text \<open>Claim C1 as first stated also excludes that initialization completes with the zero
  address bound. When the entry point answers \<^verbatim>\<open>SenderAddressResult\<close> with the zero
  address (its answer when the factory call fails), \<^verbatim>\<open>init\<close> completes and the
  proxy is the zero address.\<close>

theorem init_binds_zero_address:
  "\<not> isl (init example_constants
            (example_endpoints (Inl (SenderAddressResult (JStr AddressZero))) 0)
            example_signer ''http://localhost:8545'' None)
   \<and> proxy (projr (init example_constants
        (example_endpoints (Inl (SenderAddressResult (JStr AddressZero))) 0)
        example_signer ''http://localhost:8545'' None))
      = JStr ''0x0000000000000000000000000000000000000000''"
  by (simp add: init_eval example_defs)

section \<open>The account resolution middleware and the init code\<close>

lemma hexlify_length: "hexlify s = Inr h \<Longrightarrow> length h = length s"
  by (auto simp: hexlify_def split: if_splits)

text \<open>The concatenation of the factory address and at least one byte of call data is
  not the empty byte string.\<close>

lemma hexConcat_two_nonempty:
  assumes "hexConcat [f, data] = Inr ic" and "2 < length data"
  shows "ic \<noteq> ''0x''"
proof -
  from assms(1) obtain hf hd where f: "hexlify f = Inr hf" and d: "hexlify data = Inr hd"
    and ic: "ic = (''0x'' @ drop 2 hf) @ drop 2 hd"
    by (auto simp: hexConcat_def split: sum.splits)
  from hexlify_length [OF d] assms(2) have "drop 2 hd \<noteq> []" by auto
  with ic show ?thesis by auto
qed

lemma example_init_completes:
  "\<not> isl (init example_constants
            (example_endpoints (Inl (SenderAddressResult (JStr example_account))) n)
            example_signer ''http://localhost:8545'' None)"
  "\<not> isl (init example_constants
            (example_endpoints (Inl (SenderAddressResult (JStr example_account))) n)
            example_signer ''http://localhost:8545'' (Some example_opts))"
  by (simp_all add: init_eval example_defs example_opts_def)

text \<open>
  Claim C2. In a run of the account resolution middleware in which the entry point
  answers the nonce query with \<open>n\<close>, the middleware does not throw, stores \<open>n\<close> as
  the nonce, and sets the init code of the operation to the builder's init code when
  \<open>n = 0\<close> and to \<^verbatim>\<open>"0x"\<close> when \<open>n > 0\<close>. For a builder that carries the init code
  computed by \<^verbatim>\<open>init\<close> (the factory address followed by the encoded creation call,
  which has at least one byte), that init code is not \<^verbatim>\<open>"0x"\<close>, so the operation
  gets a non-empty init code exactly when the nonce is zero.
\<close>

theorem resolveAccount_initCode:
  assumes nonce: "getNonce E (sender (op ctx)) 0 = Inr n"
  shows "fst (resolveAccount E this ctx) = None
    \<and> nonce (op (snd (resolveAccount E this ctx))) = n
    \<and> (n = 0 \<longrightarrow> initCode (op (snd (resolveAccount E this ctx))) = initCode_field this)
    \<and> (0 < n \<longrightarrow> initCode (op (snd (resolveAccount E this ctx))) = ''0x'')
    \<and> (\<forall>K sg rpcUrl opts a data ic inst.
          signer_getAddress sg = Inr a
          \<and> encodeFunctionData E ''createAccount''
               [JStr a, JStr (mevBoostPaymaster (new_MEVBoostAccount K sg rpcUrl opts)), JNum 0]
              = Inr data
          \<and> 2 < length data
          \<and> hexConcat [factory (new_MEVBoostAccount K sg rpcUrl opts), data] = Inr ic
          \<and> init K E sg rpcUrl opts = Inr inst
          \<and> initCode_field this = initCode_field inst
          \<longrightarrow> initCode_field this = ic \<and> ic \<noteq> ''0x''
              \<and> (initCode (op (snd (resolveAccount E this ctx))) \<noteq> ''0x'' \<longleftrightarrow> n = 0))"
proof -
  have r: "resolveAccount E this ctx =
      (None, ctx\<lparr>op := (op ctx)\<lparr>nonce := n,
                 initCode := (if n = 0 then initCode_field this else ''0x'')\<rparr>\<rparr>)"
    using nonce by (simp add: resolveAccount_def Let_def)
  show ?thesis
    unfolding r
    by (auto dest: init_initCode_field hexConcat_two_nonempty)
qed

text \<open>On the example endpoints: nonce 0 attaches the init code of the initialized
  builder, nonce 3 attaches \<^verbatim>\<open>"0x"\<close>.\<close>

theorem resolveAccount_initCode_witness:
  "initCode (op (snd (resolveAccount
       (example_endpoints (Inl (SenderAddressResult (JStr example_account))) 0)
       (projr (init example_constants
                 (example_endpoints (Inl (SenderAddressResult (JStr example_account))) 0)
                 example_signer ''http://localhost:8545'' None))
       example_ctx)))
     = ''0xfac70000000000000000000000000000000000015fbfb9cf''
   \<and> initCode (op (snd (resolveAccount
       (example_endpoints (Inl (SenderAddressResult (JStr example_account))) 3)
       (projr (init example_constants
                 (example_endpoints (Inl (SenderAddressResult (JStr example_account))) 3)
                 example_signer ''http://localhost:8545'' None))
       example_ctx)))
     = ''0x''"
proof -
  let ?E = "\<lambda>n. example_endpoints (Inl (SenderAddressResult (JStr example_account))) n"
  let ?b = "\<lambda>n. projr (init example_constants (?E n) example_signer
                          ''http://localhost:8545'' None)"
  have i: "init example_constants (?E n) example_signer ''http://localhost:8545'' None
             = Inr (?b n)" for n
    using example_init_completes(1) [of n] by simp
  have n: "getNonce (?E n) (sender (op example_ctx)) 0 = Inr n" for n
    by (simp add: example_endpoints_def)
  note t0 = resolveAccount_initCode [OF n [of 0], where this = "?b 0"]
  from t0 have a0: "initCode (op (snd (resolveAccount (?E 0) (?b 0) example_ctx)))
      = initCode_field (?b 0)"
    by blast
  from t0 have "signer_getAddress example_signer
              = Inr ''0x1111111111111111111111111111111111111111''
          \<and> encodeFunctionData (?E 0) ''createAccount''
               [JStr ''0x1111111111111111111111111111111111111111'',
                JStr (mevBoostPaymaster (new_MEVBoostAccount example_constants example_signer
                        ''http://localhost:8545'' None)), JNum 0]
              = Inr ''0x5fbfb9cf''
          \<and> 2 < length ''0x5fbfb9cf''
          \<and> hexConcat [factory (new_MEVBoostAccount example_constants example_signer
                        ''http://localhost:8545'' None), ''0x5fbfb9cf'']
              = Inr ''0xfac70000000000000000000000000000000000015fbfb9cf''
          \<and> init example_constants (?E 0) example_signer ''http://localhost:8545'' None
              = Inr (?b 0)
          \<and> initCode_field (?b 0) = initCode_field (?b 0)
          \<longrightarrow> initCode_field (?b 0) = ''0xfac70000000000000000000000000000000000015fbfb9cf''"
    by blast
  with example_issued(1) example_issued(2) example_initCode i
  have b0: "initCode_field (?b 0) = ''0xfac70000000000000000000000000000000000015fbfb9cf''"
    by simp
  from resolveAccount_initCode [OF n [of 3], where this = "?b 3"]
  have a3: "initCode (op (snd (resolveAccount (?E 3) (?b 3) example_ctx))) = ''0x''"
    by simp
  from a0 b0 a3 show ?thesis by simp
qed

section \<open>The middleware registered by initialization\<close>

text \<open>
  Claim C3. When \<^verbatim>\<open>init\<close> completes, the middleware stack of the builder has
  exactly four entries, in this order: account resolution, gas price, gas estimation,
  signature. The third entry is the caller's paymaster middleware when the options
  carry one and the default gas estimator otherwise; the stack never holds both.
\<close>

theorem init_registers_middleware:
  assumes "init K E sg rpcUrl opts = Inr inst"
  shows "middlewareStack inst =
           [ResolveAccount, GetGasPrice,
            (case Option.bind opts opt_paymasterMiddleware of
               Some pm \<Rightarrow> PaymasterMiddleware pm
             | None \<Rightarrow> EstimateUserOperationGas),
            EOASignature]
    \<and> length (middlewareStack inst) = 4
    \<and> ((\<exists>pm. PaymasterMiddleware pm \<in> set (middlewareStack inst))
          \<longleftrightarrow> Option.bind opts opt_paymasterMiddleware \<noteq> None)
    \<and> (EstimateUserOperationGas \<in> set (middlewareStack inst)
          \<longleftrightarrow> Option.bind opts opt_paymasterMiddleware = None)"
proof -
  from assms obtain e i1 i2 where
    t: "init_try E (new_MEVBoostAccount K sg rpcUrl opts) = (e, i1)"
    and c: "init_catch e i1 = Inr i2" and r: "init_register opts i2 = Inr inst"
    by (auto simp: init_def Let_def split: prod.splits sum.splits)
  have "middlewareStack i1 = []"
    using t by (auto simp: init_try_def new_MEVBoostAccount_def split: sum.splits)
  then have "middlewareStack i2 = []"
    using c by (auto simp: init_catch_def Let_def split: if_splits)
  then have s: "middlewareStack inst =
           [ResolveAccount, GetGasPrice,
            (case Option.bind opts opt_paymasterMiddleware of
               Some pm \<Rightarrow> PaymasterMiddleware pm
             | None \<Rightarrow> EstimateUserOperationGas),
            EOASignature]"
    using r by (auto simp: init_register_def Let_def useMiddleware_def useDefaults_def
        split: sum.splits option.splits)
  show ?thesis unfolding s by (auto split: option.splits)
qed

text \<open>Without options the default estimator is third; with the example options the
  caller's paymaster middleware is.\<close>

theorem init_registers_middleware_witness:
  "middlewareStack (projr (init example_constants
       (example_endpoints (Inl (SenderAddressResult (JStr example_account))) 0)
       example_signer ''http://localhost:8545'' None))
     = [ResolveAccount, GetGasPrice, EstimateUserOperationGas, EOASignature]
   \<and> middlewareStack (projr (init example_constants
       (example_endpoints (Inl (SenderAddressResult (JStr example_account))) 0)
       example_signer ''http://localhost:8545'' (Some example_opts)))
     = [ResolveAccount, GetGasPrice, PaymasterMiddleware example_paymasterMiddleware,
        EOASignature]"
proof -
  let ?init = "init example_constants
       (example_endpoints (Inl (SenderAddressResult (JStr example_account))) 0)
       example_signer ''http://localhost:8545''"
  have i: "?init None = Inr (projr (?init None))"
    using example_init_completes(1) [of 0] by simp
  have j: "?init (Some example_opts) = Inr (projr (?init (Some example_opts)))"
    using example_init_completes(2) [of 0] by simp
  from init_registers_middleware [OF i]
  have a: "middlewareStack (projr (?init None))
     = [ResolveAccount, GetGasPrice, EstimateUserOperationGas, EOASignature]"
    by simp
  from init_registers_middleware [OF j]
  have b: "middlewareStack (projr (?init (Some example_opts)))
     = [ResolveAccount, GetGasPrice, PaymasterMiddleware example_paymasterMiddleware,
        EOASignature]"
    by (simp add: example_opts_def)
  from a b show ?thesis by simp
qed

section \<open>The call-data setters: frame and encoder errors\<close>

text \<open>
  Claim C7. Each of \<^verbatim>\<open>execute\<close>, \<^verbatim>\<open>executeBatch\<close>, \<^verbatim>\<open>boostExecute\<close> and
  \<^verbatim>\<open>boostExecuteBatch\<close> leaves a builder that differs from the one it was called on
  in the call data of the operation-in-progress at most: sender, nonce, init code, the gas
  fields, paymaster data and signature of the operation, the default operation, the
  middleware stack and the private fields are the same. No middleware is run: the result
  does not depend on what the entry point or any of the middleware functions would
  answer.
\<close>

theorem setters_change_callData_only:
  "snd (execute E to val data this) =
      this\<lparr>currOp := (currOp this)
             \<lparr>callData := callData (currOp (snd (execute E to val data this)))\<rparr>\<rparr>
   \<and> snd (executeBatch E tos vals datas this) =
      this\<lparr>currOp := (currOp this)
             \<lparr>callData := callData (currOp (snd (executeBatch E tos vals datas this)))\<rparr>\<rparr>
   \<and> snd (boostExecute E config to val data this) =
      this\<lparr>currOp := (currOp this)
             \<lparr>callData := callData (currOp (snd (boostExecute E config to val data this)))\<rparr>\<rparr>
   \<and> snd (boostExecuteBatch E config tos vals datas this) =
      this\<lparr>currOp := (currOp this)
             \<lparr>callData :=
                callData (currOp (snd (boostExecuteBatch E config tos vals datas this)))\<rparr>\<rparr>
   \<and> execute (E\<lparr>getSenderAddress := gs, getNonce := gn, getGasPrice_fn := m1,
                 estimateUserOperationGas_fn := m2, EOASignature_fn := m3\<rparr>) to val data this
       = execute E to val data this
   \<and> executeBatch (E\<lparr>getSenderAddress := gs, getNonce := gn, getGasPrice_fn := m1,
                 estimateUserOperationGas_fn := m2, EOASignature_fn := m3\<rparr>) tos vals datas this
       = executeBatch E tos vals datas this
   \<and> boostExecute (E\<lparr>getSenderAddress := gs, getNonce := gn, getGasPrice_fn := m1,
                 estimateUserOperationGas_fn := m2, EOASignature_fn := m3\<rparr>)
         config to val data this
       = boostExecute E config to val data this
   \<and> boostExecuteBatch (E\<lparr>getSenderAddress := gs, getNonce := gn, getGasPrice_fn := m1,
                 estimateUserOperationGas_fn := m2, EOASignature_fn := m3\<rparr>)
         config tos vals datas this
       = boostExecuteBatch E config tos vals datas this"
  by (simp add: execute_def executeBatch_def boostExecute_def boostExecuteBatch_def
      setCallData_def split: sum.splits)






section \<open>Stability of the proxy address and the init code\<close>

lemma public_step_fields:
  "proxy (fst (public_step E io s c)) = proxy (fst s)
   \<and> initCode_field (fst (public_step E io s c)) = initCode_field (fst s)"
  by (cases s; cases c)
    (auto simp: execute_def executeBatch_def boostExecute_def boostExecuteBatch_def
      setCallData_def buildOp_def split: sum.splits prod.splits option.splits)

text \<open>
  Claim C8. Whatever sequence of public operations (the four setters, the settlement
  waiter, finalization with its middleware run) is applied to a builder, whether or not
  some of them throw, the proxy address and the init code of the builder at the end are
  those it had at the start; in particular those \<^verbatim>\<open>init\<close> bound.
\<close>

theorem proxy_and_initCode_stable:
  "proxy (fst (foldl (public_step E io) (this, w) calls)) = proxy this
   \<and> initCode_field (fst (foldl (public_step E io) (this, w) calls)) = initCode_field this"
proof (induction calls arbitrary: this w)
  case Nil
  then show ?case by simp
next
  case (Cons c calls)
  obtain this1 w1 where s: "public_step E io (this, w) c = (this1, w1)"
    by (cases "public_step E io (this, w) c")
  from public_step_fields [of E io "(this, w)" c] s
  have "proxy this1 = proxy this" "initCode_field this1 = initCode_field this" by simp_all
  with Cons.IH [of this1 w1] s show ?case by simp
qed

section \<open>The settlement waiter: the loop\<close>








lemma boostWait_loop_calls:
  "boostWait_loop fuel io pm h end blk iv w = Some (r, calls, w') \<Longrightarrow>
     set calls \<subseteq> {QueryFilter pm h (fromBlock blk), Sleep iv}"
proof (induction fuel arbitrary: w r calls w')
  case 0
  then show ?case by simp
next
  case (Suc fuel)
  from Suc.prems show ?case
    by (auto split: if_splits prod.splits sum.splits option.splits dest!: Suc.IH)
qed

lemma boostWait_unfold:
  "getBlock io w = (Inr blk, w1) \<Longrightarrow>
     boostWait fuel io this h deadlineMs waitIntervalMs w =
       map_option (\<lambda>(r, calls, w2). (r, GetBlock # calls, w2))
         (boostWait_loop fuel io (mevBoostPaymaster this) h
            (deadline_end deadlineMs (Date_now io w)) blk
            (case waitIntervalMs of None \<Rightarrow> 5000 | Some i \<Rightarrow> i) w1)"
  by (simp add: boostWait_def Let_def split: option.splits)

lemmas example_io_simps = example_io_def example_builder_def example_event_def
  new_MEVBoostAccount_def example_constants_def

section \<open>The settlement waiter: the claims\<close>





text \<open>
  Claim C6, as the code has it. A call of \<^verbatim>\<open>boostWait\<close> with a deadline that is not
  zero and lies strictly before the clock reading at the call, whose fetch of the latest
  block succeeds while the clock does not run backwards, returns \<^verbatim>\<open>null\<close> after the
  block fetch alone: no query of the event log is issued.
\<close>

theorem boostWait_past_deadline:
  fixes io :: "'w io"
  assumes gb: "getBlock io w = (Inr blk, w1)"
    and mono: "Date_now io w \<le> Date_now io w1"
    and nz: "d \<noteq> 0"
    and past: "d < Date_now io w"
  shows "boostWait (Suc fuel) io this h (Some (Num d)) waitIntervalMs w
           = Some (Returned JNull, [GetBlock], w1)"
  using assms by (simp add: boostWait_def deadline_end_def)

theorem boostWait_past_deadline_witness:
  "getBlock (example_io 500 12000) 1000 = (Inr \<lparr>number = 500\<rparr>, 1020)
   \<and> Date_now (example_io 500 12000) 1000 \<le> Date_now (example_io 500 12000) 1020
   \<and> (900::int) \<noteq> 0 \<and> 900 < Date_now (example_io 500 12000) 1000
   \<and> boostWait (Suc 0) (example_io 500 12000) example_builder example_userOpHash (Some (Num 900))
        None 1000
        = Some (Returned JNull, [GetBlock], 1020)"
proof -
  have gb: "getBlock (example_io 500 12000) 1000 = (Inr \<lparr>number = 500\<rparr>, 1020)"
    by (simp add: example_io_def)
  have mono: "Date_now (example_io 500 12000) 1000 \<le> Date_now (example_io 500 12000) 1020"
    by (simp add: example_io_def)
  have nz: "(900::int) \<noteq> 0" by simp
  have past: "900 < Date_now (example_io 500 12000) 1000" by (simp add: example_io_def)
  from boostWait_past_deadline [OF gb mono nz past, of 0 example_builder example_userOpHash None]
    gb mono nz past
  show ?thesis by blast
qed

text \<open>Claim C6 as first stated covers the deadline 0, which lies strictly in the past of
  the clock reading 1000. With it the waiter polls until the default deadline: six
  queries and a return at time 31200 when nothing settles, and the event itself when
  the log already holds it.\<close>

theorem boostWait_zero_deadline_polls:
  "0 < Date_now (example_io 50 40000) 1000
   \<and> boostWait 10 (example_io 50 40000) example_builder example_userOpHash (Some (Num 0)) None 1000 =
     Some (Returned JNull,
       [GetBlock,
        QueryFilter ''0x9A00000000000000000000000000000000000002'' example_userOpHash 0, Sleep 5000,
        QueryFilter ''0x9A00000000000000000000000000000000000002'' example_userOpHash 0, Sleep 5000,
        QueryFilter ''0x9A00000000000000000000000000000000000002'' example_userOpHash 0, Sleep 5000,
        QueryFilter ''0x9A00000000000000000000000000000000000002'' example_userOpHash 0, Sleep 5000,
        QueryFilter ''0x9A00000000000000000000000000000000000002'' example_userOpHash 0, Sleep 5000,
        QueryFilter ''0x9A00000000000000000000000000000000000002'' example_userOpHash 0, Sleep 5000],
       31200)
   \<and> boostWait 10 (example_io 50 0) example_builder example_userOpHash (Some (Num 0)) None 1000 =
     Some (Returned example_event,
       [GetBlock, QueryFilter ''0x9A00000000000000000000000000000000000002'' example_userOpHash 0],
       1050)"
  by (simp add: boostWait_def deadline_end_def fromBlock_def example_io_simps eval_nat_numeral)

text \<open>A block fetch that throws makes the call throw, whatever the deadline.\<close>

lemma boostWait_getBlock_throws:
  "getBlock io w = (Inl e, w1) \<Longrightarrow>
     boostWait fuel io this h deadlineMs waitIntervalMs w = Some (Thrown e, [GetBlock], w1)"
  by (simp add: boostWait_def)

text \<open>
  Claim C9. A deadline argument of 0, or any other falsy number, is treated as an absent
  deadline: the deadline used is 30000 ms after the clock reading at the call, and the
  call behaves in every respect as the call without a deadline. So when the block fetch
  succeeds and takes less than those 30000 ms, the call does not return \<^verbatim>\<open>null\<close>
  at once: the first thing after the block fetch is a query of the event log.
\<close>

theorem boostWait_falsy_deadline:
  fixes io :: "'w io"
  shows "boostWait fuel io this h (Some (Num 0)) waitIntervalMs w
           = boostWait fuel io this h None waitIntervalMs w
    \<and> boostWait fuel io this h (Some NaN) waitIntervalMs w
           = boostWait fuel io this h None waitIntervalMs w
    \<and> (\<forall>d. \<not> truthy_number d \<longrightarrow>
          deadline_end (Some d) (Date_now io w) = Num (Date_now io w + 30000)
          \<and> boostWait fuel io this h (Some d) waitIntervalMs w
              = boostWait fuel io this h None waitIntervalMs w)
    \<and> (\<forall>d blk w1 r calls w'.
          \<not> truthy_number d
          \<and> getBlock io w = (Inr blk, w1)
          \<and> Date_now io w1 < Date_now io w + 30000
          \<and> boostWait fuel io this h (Some d) waitIntervalMs w = Some (r, calls, w')
          \<longrightarrow> (\<exists>rest. calls = GetBlock
                   # QueryFilter (mevBoostPaymaster this) h (fromBlock blk) # rest))"
proof (intro conjI allI impI)
  show "boostWait fuel io this h (Some (Num 0)) waitIntervalMs w
           = boostWait fuel io this h None waitIntervalMs w"
    by (simp add: boostWait_def deadline_end_def)
  show "boostWait fuel io this h (Some NaN) waitIntervalMs w
           = boostWait fuel io this h None waitIntervalMs w"
    by (simp add: boostWait_def deadline_end_def)
next
  fix d assume "\<not> truthy_number d"
  then show "deadline_end (Some d) (Date_now io w) = Num (Date_now io w + 30000)"
    by (simp add: deadline_end_def)
next
  fix d assume "\<not> truthy_number d"
  then show "boostWait fuel io this h (Some d) waitIntervalMs w
              = boostWait fuel io this h None waitIntervalMs w"
    by (simp add: boostWait_def deadline_end_def)
next
  fix d blk w1 r calls w'
  assume h: "\<not> truthy_number d
          \<and> getBlock io w = (Inr blk, w1)
          \<and> Date_now io w1 < Date_now io w + 30000
          \<and> boostWait fuel io this h (Some d) waitIntervalMs w = Some (r, calls, w')"
  then have e: "deadline_end (Some d) (Date_now io w) = Num (Date_now io w + 30000)"
    by (simp add: deadline_end_def)
  from h have gb: "getBlock io w = (Inr blk, w1)" by simp
  from h have "map_option (\<lambda>(r, calls, w2). (r, GetBlock # calls, w2))
         (boostWait_loop fuel io (mevBoostPaymaster this) h (Num (Date_now io w + 30000)) blk
            (case waitIntervalMs of None \<Rightarrow> 5000 | Some i \<Rightarrow> i) w1) = Some (r, calls, w')"
    unfolding boostWait_unfold [OF gb] e by simp
  then obtain calls1 where
    loop: "boostWait_loop fuel io (mevBoostPaymaster this) h (Num (Date_now io w + 30000)) blk
            (case waitIntervalMs of None \<Rightarrow> 5000 | Some i \<Rightarrow> i) w1 = Some (r, calls1, w')"
    and calls: "calls = GetBlock # calls1"
    by auto
  from loop h
  have "\<exists>rest. calls1 = QueryFilter (mevBoostPaymaster this) h (fromBlock blk) # rest"
    by (cases fuel) (auto split: prod.splits sum.splits if_splits option.splits)
  with calls show "\<exists>rest. calls = GetBlock
                   # QueryFilter (mevBoostPaymaster this) h (fromBlock blk) # rest"
    by simp
qed

lemma example_run_zero_deadline:
  "boostWait 10 (example_io 500 12000) example_builder example_userOpHash (Some (Num 0)) None 1000 =
     Some (Returned example_event,
       [GetBlock,
        QueryFilter ''0x9A00000000000000000000000000000000000002'' example_userOpHash 400, Sleep 5000,
        QueryFilter ''0x9A00000000000000000000000000000000000002'' example_userOpHash 400, Sleep 5000,
        QueryFilter ''0x9A00000000000000000000000000000000000002'' example_userOpHash 400, Sleep 5000,
        QueryFilter ''0x9A00000000000000000000000000000000000002'' example_userOpHash 400], 16140)"
  by (simp add: boostWait_def deadline_end_def fromBlock_def example_io_simps eval_nat_numeral)

text \<open>On the example clock a deadline of 0 gives the run of the call without deadline,
  which waits for the event that settles at time 12000.\<close>

theorem boostWait_falsy_deadline_witness:
  "\<not> truthy_number (Num 0)
   \<and> deadline_end (Some (Num 0)) (Date_now (example_io 500 12000) 1000) = Num 31000
   \<and> boostWait 10 (example_io 500 12000) example_builder example_userOpHash None None 1000 =
     Some (Returned example_event,
       [GetBlock,
        QueryFilter ''0x9A00000000000000000000000000000000000002'' example_userOpHash 400, Sleep 5000,
        QueryFilter ''0x9A00000000000000000000000000000000000002'' example_userOpHash 400, Sleep 5000,
        QueryFilter ''0x9A00000000000000000000000000000000000002'' example_userOpHash 400, Sleep 5000,
        QueryFilter ''0x9A00000000000000000000000000000000000002'' example_userOpHash 400], 16140)"
proof -
  note t = boostWait_falsy_deadline
    [of 10 "example_io 500 12000" example_builder example_userOpHash None 1000]
  have f: "\<not> truthy_number (Num 0)" by simp
  from t f
  have a: "deadline_end (Some (Num 0)) (Date_now (example_io 500 12000) 1000) = Num 31000"
    by (simp add: example_io_def)
  from t have "boostWait 10 (example_io 500 12000) example_builder example_userOpHash (Some (Num 0))
                 None 1000
      = boostWait 10 (example_io 500 12000) example_builder example_userOpHash None None 1000"
    by blast
  with example_run_zero_deadline f a show ?thesis by simp
qed

text \<open>
  Claim C10. In a call of \<^verbatim>\<open>boostWait\<close> that fetched the block \<open>blk\<close>, every query
  of the event log starts at block \<open>max 0 (number blk - 100)\<close>: never a negative block,
  block 0 when the head is within the first 100 blocks, and 100 blocks behind the head
  otherwise.
\<close>

theorem query_starts_at_fromBlock:
  fixes io :: "'w io"
  assumes gb: "getBlock io w = (Inr blk, w1)"
    and run: "boostWait fuel io this h deadlineMs waitIntervalMs w = Some (r, calls, w')"
  shows "\<forall>pm' h' f. QueryFilter pm' h' f \<in> set calls \<longrightarrow>
           f = fromBlock blk \<and> f = max 0 (number blk - 100) \<and> 0 \<le> f
           \<and> (number blk \<le> 100 \<longrightarrow> f = 0)
           \<and> (100 \<le> number blk \<longrightarrow> f = number blk - 100)"
proof (intro allI impI)
  fix pm' h' f
  assume q: "QueryFilter pm' h' f \<in> set calls"
  from run boostWait_unfold [OF gb, of fuel this h deadlineMs waitIntervalMs]
  obtain calls1 where
    loop: "boostWait_loop fuel io (mevBoostPaymaster this) h
             (deadline_end deadlineMs (Date_now io w)) blk
             (case waitIntervalMs of None \<Rightarrow> 5000 | Some i \<Rightarrow> i) w1 = Some (r, calls1, w')"
    and calls: "calls = GetBlock # calls1"
    by auto
  from boostWait_loop_calls [OF loop] q calls have "f = fromBlock blk" by auto
  then show "f = fromBlock blk \<and> f = max 0 (number blk - 100) \<and> 0 \<le> f
           \<and> (number blk \<le> 100 \<longrightarrow> f = 0)
           \<and> (100 \<le> number blk \<longrightarrow> f = number blk - 100)"
    by (auto simp: fromBlock_def)
qed

lemma example_run_low_head:
  "boostWait 10 (example_io 50 0) example_builder example_userOpHash None None 1000 =
     Some (Returned example_event,
       [GetBlock, QueryFilter ''0x9A00000000000000000000000000000000000002'' example_userOpHash 0],
       1050)"
  by (simp add: boostWait_def deadline_end_def fromBlock_def example_io_simps eval_nat_numeral)

text \<open>With the head at block 50 the query of the example run starts at block 0.\<close>

theorem query_starts_at_fromBlock_witness:
  "getBlock (example_io 50 0) 1000 = (Inr \<lparr>number = 50\<rparr>, 1020)
   \<and> QueryFilter ''0x9A00000000000000000000000000000000000002'' example_userOpHash 0
        \<in> set [GetBlock, QueryFilter ''0x9A00000000000000000000000000000000000002'' example_userOpHash 0]
   \<and> fromBlock \<lparr>number = 50\<rparr> = 0"
proof -
  have gb: "getBlock (example_io 50 0) 1000 = (Inr \<lparr>number = 50\<rparr>, 1020)"
    by (simp add: example_io_def)
  have q: "QueryFilter ''0x9A00000000000000000000000000000000000002'' example_userOpHash 0
        \<in> set [GetBlock, QueryFilter ''0x9A00000000000000000000000000000000000002'' example_userOpHash 0]"
    by simp
  from query_starts_at_fromBlock [OF gb example_run_low_head] q
  have "(0::int) = fromBlock \<lparr>number = 50\<rparr>" by blast
  with gb q show ?thesis by simp
qed

end
